theory Spec2Isabelle
  imports Main "HOL-Library.Sublist"
begin

section \<open>The GoCardless MCP server (src/index.ts)\<close>

text \<open>
  The server answers two requests: listing its tools and calling one of them. A call
  checks the configured access token, dispatches on the tool name, issues at most one
  request to the GoCardless API and renders the reply as one block of text. The model
  below follows \<^verbatim>\<open>src/index.ts\<close> function by function. The network is a parameter
  (\<open>fetch\<close>), and every request handed to it is logged, so that "no request is issued"
  is a statement about the log.
\<close>

subsection \<open>JavaScript values\<close>

text \<open>
  Tool arguments and API replies are untyped (\<^verbatim>\<open>any\<close>) in the source: they are values
  parsed from JSON, and reading a missing property gives \<^verbatim>\<open>undefined\<close>. An object is
  the list of its own properties in enumeration order (keys distinct). Numbers are
  modelled as integers; strings as lists of characters, a character outside ASCII
  being written as its UTF-8 bytes.
\<close>

datatype jsval =
    Undefined
  | Null
  | Bool bool
  | Num int
  | Str string
  | Arr "jsval list"
  | Obj "(string \<times> jsval) list"

text \<open>
  What a \<^verbatim>\<open>throw\<close> carries: an \<^verbatim>\<open>Error\<close> built by the program with its message, a
  \<^verbatim>\<open>TypeError\<close> raised by the runtime (the message is the one Node prints), or a thrown
  value that is no instance of \<^verbatim>\<open>Error\<close>.
\<close>

datatype exn = Error string | TypeError string | NonError

text \<open>Statements run in sequence; the first \<^verbatim>\<open>throw\<close> ends the run.\<close>

definition andThen :: "exn + 'a \<Rightarrow> ('a \<Rightarrow> exn + 'b) \<Rightarrow> exn + 'b" where
  "andThen m f = (case m of Inl e \<Rightarrow> Inl e | Inr x \<Rightarrow> f x)"

fun sequence :: "(exn + 'a) list \<Rightarrow> exn + 'a list" where
  "sequence [] = Inr []"
| "sequence (m # ms) =
     (case m of Inl e \<Rightarrow> Inl e
      | Inr x \<Rightarrow> (case sequence ms of Inl e \<Rightarrow> Inl e | Inr xs \<Rightarrow> Inr (x # xs)))"

text \<open>\<^verbatim>\<open>if (v)\<close>, \<^verbatim>\<open>!v\<close>, \<^verbatim>\<open>v || d\<close> and \<^verbatim>\<open>v ? a : b\<close> test truthiness.\<close>

fun truthy :: "jsval \<Rightarrow> bool" where
  "truthy Undefined = False"
| "truthy Null = False"
| "truthy (Bool b) = b"
| "truthy (Num n) = (n \<noteq> 0)"
| "truthy (Str s) = (s \<noteq> [])"
| "truthy (Arr xs) = True"
| "truthy (Obj kvs) = True"

fun typeof :: "jsval \<Rightarrow> string" where
  "typeof Undefined = ''undefined''"
| "typeof Null = ''object''"
| "typeof (Bool b) = ''boolean''"
| "typeof (Num n) = ''number''"
| "typeof (Str s) = ''string''"
| "typeof (Arr xs) = ''object''"
| "typeof (Obj kvs) = ''object''"

definition str_of :: "jsval \<Rightarrow> string" where
  "str_of v = (case v of Str s \<Rightarrow> s | _ \<Rightarrow> [])"

definition lookup :: "(string \<times> jsval) list \<Rightarrow> string \<Rightarrow> jsval" where
  "lookup kvs k = (case map_of kvs k of None \<Rightarrow> Undefined | Some v \<Rightarrow> v)"

definition cannot_read :: "string \<Rightarrow> string \<Rightarrow> exn" where
  "cannot_read base k =
     TypeError (''Cannot read properties of '' @ base @ '' (reading '' @ [CHR 0x27] @ k @ [CHR 0x27] @ '')'')"

text \<open>
  \<^verbatim>\<open>v.k\<close>, for the property names the program reads. Of the inherited properties only
  \<^verbatim>\<open>length\<close> of arrays and strings is among them (\<^verbatim>\<open>map\<close> and \<^verbatim>\<open>toString\<close> are
  calls, modelled below).
\<close>

fun get_prop :: "jsval \<Rightarrow> string \<Rightarrow> exn + jsval" where
  "get_prop Undefined k = Inl (cannot_read ''undefined'' k)"
| "get_prop Null k = Inl (cannot_read ''null'' k)"
| "get_prop (Obj kvs) k = Inr (lookup kvs k)"
| "get_prop (Arr xs) k = Inr (if k = ''length'' then Num (int (length xs)) else Undefined)"
| "get_prop (Str s) k = Inr (if k = ''length'' then Num (int (length s)) else Undefined)"
| "get_prop (Bool b) k = Inr Undefined"
| "get_prop (Num n) k = Inr Undefined"

text \<open>\<^verbatim>\<open>v?.k\<close>: \<^verbatim>\<open>undefined\<close> when \<open>v\<close> is \<^verbatim>\<open>undefined\<close> or \<^verbatim>\<open>null\<close>.\<close>

fun opt_prop :: "jsval \<Rightarrow> string \<Rightarrow> jsval" where
  "opt_prop (Obj kvs) k = lookup kvs k"
| "opt_prop (Arr xs) k = (if k = ''length'' then Num (int (length xs)) else Undefined)"
| "opt_prop (Str s) k = (if k = ''length'' then Num (int (length s)) else Undefined)"
| "opt_prop v k = Undefined"

text \<open>Whether an arguments object carries a field at all.\<close>

fun has_field :: "jsval \<Rightarrow> string \<Rightarrow> bool" where
  "has_field (Obj kvs) k = (k \<in> fst ` set kvs)"
| "has_field v k = False"

subsection \<open>Strings from values\<close>

definition digit_char :: "nat \<Rightarrow> char" where
  "digit_char d = ''0123456789'' ! d"

text \<open>The decimal digits of a natural number, most significant first.\<close>

function decimal :: "nat \<Rightarrow> string" where
  "decimal n =
     (if 10 \<le> n then decimal (n div 10) @ [digit_char (n mod 10)] else [digit_char n])"
  by pat_completeness auto
termination
  by (relation "measure id") auto

declare decimal.simps [simp del]

text \<open>
  \<^verbatim>\<open>Number.prototype.toString\<close> on an integer below \<open>10^21\<close> in absolute value; from
  there on JavaScript writes an exponent, which this function does not.
\<close>

definition number_to_string :: "int \<Rightarrow> string" where
  "number_to_string i = (if 0 \<le> i then decimal (nat i) else CHR ''-'' # decimal (nat (- i)))"

text \<open>\<^verbatim>\<open>Array.prototype.join\<close> on strings.\<close>

fun join :: "string \<Rightarrow> string list \<Rightarrow> string" where
  "join sep [] = []"
| "join sep [x] = x"
| "join sep (x # y # ys) = x @ sep @ join sep (y # ys)"

definition cannot_convert :: exn where
  "cannot_convert = TypeError ''Cannot convert object to primitive value''"

text \<open>
  String conversion, as a template literal \<^verbatim>\<open>${v}\<close> does it. An array joins its
  elements with commas, \<^verbatim>\<open>null\<close> and \<^verbatim>\<open>undefined\<close> elements giving the empty string.
  An object parsed from JSON is \<^verbatim>\<open>[object Object]\<close>, unless it has an own property
  \<^verbatim>\<open>toString\<close>, which hides the inherited method by a value that cannot be called:
  the conversion then throws.
\<close>

fun to_string :: "jsval \<Rightarrow> exn + string" where
  "to_string Undefined = Inr ''undefined''"
| "to_string Null = Inr ''null''"
| "to_string (Bool b) = Inr (if b then ''true'' else ''false'')"
| "to_string (Num n) = Inr (number_to_string n)"
| "to_string (Str s) = Inr s"
| "to_string (Arr xs) =
     (case sequence (map (\<lambda>x. if x = Undefined \<or> x = Null then Inr [] else to_string x) xs) of
        Inl e \<Rightarrow> Inl e
      | Inr ss \<Rightarrow> Inr (join '','' ss))"
| "to_string (Obj kvs) =
     (if ''toString'' \<in> fst ` set kvs then Inl cannot_convert else Inr ''[object Object]'')"

text \<open>The method call \<^verbatim>\<open>v.toString()\<close>; \<open>expr\<close> is the source text of \<open>v\<close>.\<close>

definition call_toString :: "string \<Rightarrow> jsval \<Rightarrow> exn + string" where
  "call_toString expr v =
     (case v of
        Undefined \<Rightarrow> Inl (cannot_read ''undefined'' ''toString'')
      | Null \<Rightarrow> Inl (cannot_read ''null'' ''toString'')
      | Obj kvs \<Rightarrow>
          if ''toString'' \<in> fst ` set kvs
          then Inl (TypeError (expr @ ''.toString is not a function''))
          else Inr ''[object Object]''
      | _ \<Rightarrow> to_string v)"

text \<open>\<^verbatim>\<open>v.map(f)\<close>: only an array has the method.\<close>

definition call_map :: "string \<Rightarrow> jsval \<Rightarrow> (jsval \<Rightarrow> exn + 'a) \<Rightarrow> exn + 'a list" where
  "call_map expr v f =
     (case v of
        Arr xs \<Rightarrow> sequence (map f xs)
      | Undefined \<Rightarrow> Inl (cannot_read ''undefined'' ''map'')
      | Null \<Rightarrow> Inl (cannot_read ''null'' ''map'')
      | _ \<Rightarrow> Inl (TypeError (expr @ ''.map is not a function'')))"

text \<open>
  Template literals: the parts are evaluated from left to right and concatenated.
  \<open>lit\<close> is literal text, \<open>field v k\<close> is \<^verbatim>\<open>${v.k}\<close>.
\<close>

definition lit :: "string \<Rightarrow> exn + string" where
  "lit s = Inr s"

definition field :: "jsval \<Rightarrow> string \<Rightarrow> exn + string" where
  "field v k = andThen (get_prop v k) to_string"

definition template :: "(exn + string) list \<Rightarrow> exn + string" where
  "template parts = andThen (sequence parts) (\<lambda>ss. Inr (concat ss))"

abbreviation NL :: string where
  "NL \<equiv> [CHR 0x0A]"

abbreviation bullet :: string where
  "bullet \<equiv> [CHR 0xE2, CHR 0x80, CHR 0xA2]"

subsection \<open>Numbers\<close>

definition code_of :: "char \<Rightarrow> nat" where
  "code_of c = of_char c"

definition is_digit :: "char \<Rightarrow> bool" where
  "is_digit c = (48 \<le> code_of c \<and> code_of c \<le> 57)"

definition is_space :: "char \<Rightarrow> bool" where
  "is_space c = (code_of c = 32 \<or> (9 \<le> code_of c \<and> code_of c \<le> 13))"

definition trim :: "string \<Rightarrow> string" where
  "trim s = rev (dropWhile is_space (rev (dropWhile is_space s)))"

definition digits_value :: "string \<Rightarrow> int" where
  "digits_value ds = foldl (\<lambda>a c. 10 * a + int (code_of c - 48)) 0 ds"

definition unsigned_value :: "string \<Rightarrow> int option" where
  "unsigned_value ds =
     (if ds \<noteq> [] \<and> list_all is_digit ds then Some (digits_value ds) else None)"

text \<open>
  A string as a number (\<open>None\<close> is \<^verbatim>\<open>NaN\<close>): ASCII white space is trimmed, the empty
  string is 0, an optionally signed run of decimal digits is its value. The other
  numeric notations of JavaScript (fractions, exponents, radix prefixes,
  \<^verbatim>\<open>Infinity\<close>) denote numbers or use syntax outside this model of integers; no
  property below depends on them.
\<close>

definition string_to_number :: "string \<Rightarrow> int option" where
  "string_to_number s =
     (case trim s of
        [] \<Rightarrow> Some 0
      | c # ds \<Rightarrow>
          if c = CHR ''-'' then map_option uminus (unsigned_value ds)
          else if c = CHR ''+'' then unsigned_value ds
          else unsigned_value (c # ds))"

text \<open>\<^verbatim>\<open>Number(v)\<close>, and the conversion that \<^verbatim>\<open>v / 100\<close> applies to \<open>v\<close>.\<close>

definition to_number :: "jsval \<Rightarrow> exn + int option" where
  "to_number v =
     (case v of
        Undefined \<Rightarrow> Inr None
      | Null \<Rightarrow> Inr (Some 0)
      | Bool b \<Rightarrow> Inr (Some (if b then 1 else 0))
      | Num n \<Rightarrow> Inr (Some n)
      | Str s \<Rightarrow> Inr (string_to_number s)
      | _ \<Rightarrow> andThen (to_string v) (\<lambda>s. Inr (string_to_number s)))"

text \<open>
  \<^verbatim>\<open>(x / 100).toFixed(2)\<close> for an integer \<open>x\<close> (or \<^verbatim>\<open>NaN\<close>): the amount in minor units
  with the decimal point two places from the right. This is what the floating-point
  computation prints as long as \<open>x\<close> is below \<open>10^15\<close> in absolute value: there the
  double nearest to \<open>x / 100\<close> is within 0.005 of it. From about \<open>7 * 10^15\<close> on the
  doubles are too far apart, and the source can print other digits than this function.
\<close>

definition hundredth_toFixed2 :: "int option \<Rightarrow> string" where
  "hundredth_toFixed2 x =
     (case x of
        None \<Rightarrow> ''NaN''
      | Some n \<Rightarrow>
          (if n < 0 then ''-'' else [])
          @ decimal (nat \<bar>n\<bar> div 100) @ ''.''
          @ [digit_char (nat \<bar>n\<bar> mod 100 div 10), digit_char (nat \<bar>n\<bar> mod 10)])"

subsection \<open>JSON.stringify\<close>

definition hex_upper :: "nat \<Rightarrow> char" where
  "hex_upper d = ''0123456789ABCDEF'' ! d"

definition hex_lower :: "nat \<Rightarrow> char" where
  "hex_lower d = ''0123456789abcdef'' ! d"

definition quote_char :: "char \<Rightarrow> string" where
  "quote_char c =
     (if c = CHR 0x22 then [CHR 0x5C, CHR 0x22]
      else if c = CHR 0x5C then [CHR 0x5C, CHR 0x5C]
      else if c = CHR 0x08 then [CHR 0x5C, CHR ''b'']
      else if c = CHR 0x09 then [CHR 0x5C, CHR ''t'']
      else if c = CHR 0x0A then [CHR 0x5C, CHR ''n'']
      else if c = CHR 0x0C then [CHR 0x5C, CHR ''f'']
      else if c = CHR 0x0D then [CHR 0x5C, CHR ''r'']
      else if code_of c < 32 then
        [CHR 0x5C, CHR ''u'', CHR ''0'', CHR ''0'',
         hex_lower (code_of c div 16), hex_lower (code_of c mod 16)]
      else [c])"

definition quote :: "string \<Rightarrow> string" where
  "quote s = [CHR 0x22] @ concat (map quote_char s) @ [CHR 0x22]"

text \<open>
  The serialisation of a value with a given \<open>gap\<close> (empty, or the two spaces of
  \<^verbatim>\<open>JSON.stringify(v, null, 2)\<close>) at the current indentation. \<open>None\<close> is the result
  \<^verbatim>\<open>undefined\<close>: a property with that value is left out, an array element with it is
  written \<^verbatim>\<open>null\<close>.
\<close>

fun serialize :: "string \<Rightarrow> string \<Rightarrow> jsval \<Rightarrow> string option" where
  "serialize gap indent Undefined = None"
| "serialize gap indent Null = Some ''null''"
| "serialize gap indent (Bool b) = Some (if b then ''true'' else ''false'')"
| "serialize gap indent (Num n) = Some (number_to_string n)"
| "serialize gap indent (Str s) = Some (quote s)"
| "serialize gap indent (Arr xs) =
     (let partial = map (\<lambda>x. case serialize gap (indent @ gap) x of
                                None \<Rightarrow> ''null'' | Some s \<Rightarrow> s) xs
      in Some (if partial = [] then ''[]''
               else if gap = [] then ''['' @ join '','' partial @ '']''
               else ''['' @ NL @ indent @ gap
                    @ join ('','' @ NL @ indent @ gap) partial
                    @ NL @ indent @ '']''))"
| "serialize gap indent (Obj kvs) =
     (let partial = concat (map (\<lambda>(k, v). case serialize gap (indent @ gap) v of
                                   None \<Rightarrow> []
                                 | Some s \<Rightarrow>
                                     [quote k @ '':'' @ (if gap = [] then [] else '' '') @ s]) kvs)
      in Some (if partial = [] then ''{}''
               else if gap = [] then ''{'' @ join '','' partial @ ''}''
               else ''{'' @ NL @ indent @ gap
                    @ join ('','' @ NL @ indent @ gap) partial
                    @ NL @ indent @ ''}''))"

definition JSON_stringify :: "jsval \<Rightarrow> string option" where
  "JSON_stringify v = serialize [] [] v"

definition JSON_stringify_indent2 :: "jsval \<Rightarrow> string option" where
  "JSON_stringify_indent2 v = serialize ''  '' [] v"

subsection \<open>URLSearchParams\<close>

definition is_alnum :: "char \<Rightarrow> bool" where
  "is_alnum c =
     (is_digit c \<or> (65 \<le> code_of c \<and> code_of c \<le> 90) \<or> (97 \<le> code_of c \<and> code_of c \<le> 122))"

definition form_encode_char :: "char \<Rightarrow> string" where
  "form_encode_char c =
     (if c = CHR '' '' then ''+''
      else if is_alnum c \<or> c \<in> set ''*-._'' then [c]
      else [CHR ''%'', hex_upper (code_of c div 16), hex_upper (code_of c mod 16)])"

definition form_encode :: "string \<Rightarrow> string" where
  "form_encode s = concat (map form_encode_char s)"

text \<open>\<^verbatim>\<open>set(k, v)\<close>: replaces the first pair named \<open>k\<close> and drops the others, or appends.\<close>

fun params_set :: "(string \<times> string) list \<Rightarrow> string \<Rightarrow> string \<Rightarrow> (string \<times> string) list" where
  "params_set [] k v = [(k, v)]"
| "params_set ((k', v') # ps) k v =
     (if k' = k then (k, v) # filter (\<lambda>p. fst p \<noteq> k) ps else (k', v') # params_set ps k v)"

definition params_toString :: "(string \<times> string) list \<Rightarrow> string" where
  "params_toString ps =
     join ''&'' (map (\<lambda>p. form_encode (fst p) @ ''='' @ form_encode (snd p)) ps)"

subsection \<open>Configuration\<close>

record config =
  environment :: string
  accessToken :: string
  version :: string

text \<open>\<^verbatim>\<open>process.env.X || d\<close>: an unset or empty variable gives the default.\<close>

definition env_or :: "string option \<Rightarrow> string \<Rightarrow> string" where
  "env_or v d = (case v of None \<Rightarrow> d | Some s \<Rightarrow> if s = [] then d else s)"

definition GOCARDLESS_CONFIG :: "string option \<Rightarrow> string option \<Rightarrow> config" where
  "GOCARDLESS_CONFIG env_environment env_token =
     \<lparr> environment = env_or env_environment ''sandbox'',
       accessToken = env_or env_token [],
       version = ''2015-07-06'' \<rparr>"

definition live_host :: string where
  "live_host = ''https://api.gocardless.com''"

definition sandbox_host :: string where
  "sandbox_host = ''https://api-sandbox.gocardless.com''"

definition getApiBaseUrl :: "config \<Rightarrow> string" where
  "getApiBaseUrl cfg =
     (if environment cfg = ''live'' then live_host else sandbox_host)"

subsection \<open>The HTTP adapter\<close>

text \<open>
  \<^verbatim>\<open>fetch(url, init)\<close> is the one effect of the program. It is a parameter of the
  model: given the call, the network fails (the promise rejects) or answers with a
  response. \<^verbatim>\<open>response.text()\<close> and \<^verbatim>\<open>response.json()\<close> read the body and can fail
  themselves; \<^verbatim>\<open>response.ok\<close> says that the status is in the range 200 to 299.
\<close>

record options =
  http_method :: "string option"
  body :: "string option"
  headers :: "(string \<times> string) list"

record fetch_call =
  url :: string
  init :: options

record response =
  status :: nat
  statusText :: string
  text_body :: "exn + string"
  json_body :: "exn + jsval"

type_synonym fetcher = "fetch_call \<Rightarrow> exn + response"

definition ok :: "response \<Rightarrow> bool" where
  "ok r = (200 \<le> status r \<and> status r \<le> 299)"

definition no_options :: options where
  "no_options = \<lparr> http_method = None, body = None, headers = [] \<rparr>"

definition post :: "string option \<Rightarrow> options" where
  "post b = \<lparr> http_method = Some ''POST'', body = b, headers = [] \<rparr>"

text \<open>Object spread \<^verbatim>\<open>{...a, ...b}\<close>: a later value replaces an earlier one in place.\<close>

fun assign :: "(string \<times> string) list \<Rightarrow> string \<Rightarrow> string \<Rightarrow> (string \<times> string) list" where
  "assign [] k v = [(k, v)]"
| "assign ((k', v') # ps) k v = (if k' = k then (k, v) # ps else (k', v') # assign ps k v)"

definition spread :: "(string \<times> string) list \<Rightarrow> (string \<times> string) list \<Rightarrow> (string \<times> string) list" where
  "spread a b = foldl (\<lambda>acc p. assign acc (fst p) (snd p)) a b"

definition request_headers :: "config \<Rightarrow> options \<Rightarrow> (string \<times> string) list" where
  "request_headers cfg opts =
     spread [(''Authorization'', ''Bearer '' @ accessToken cfg),
             (''GoCardless-Version'', version cfg),
             (''Content-Type'', ''application/json'')]
            (headers opts)"

text \<open>The result of the call, and the calls handed to \<open>fetch\<close> (always exactly one).\<close>

definition makeGoCardlessRequest ::
  "config \<Rightarrow> fetcher \<Rightarrow> string \<Rightarrow> options \<Rightarrow> (exn + jsval) \<times> fetch_call list" where
  "makeGoCardlessRequest cfg fetch endpoint opts =
     (let call = \<lparr> url = getApiBaseUrl cfg @ endpoint,
                   init = opts \<lparr> headers := request_headers cfg opts \<rparr> \<rparr>
      in (case fetch call of
            Inl e \<Rightarrow> Inl e
          | Inr r \<Rightarrow>
              if \<not> ok r then
                (case text_body r of
                   Inl e \<Rightarrow> Inl e
                 | Inr errorData \<Rightarrow>
                     Inl (Error (''GoCardless API error: '' @ decimal (status r) @ '' ''
                                 @ statusText r @ NL @ errorData)))
              else json_body r,
          [call]))"

subsection \<open>Tool results\<close>

record ContentBlock =
  block_type :: string
  block_text :: string

text \<open>\<open>isError\<close> is \<open>None\<close> where the returned object has no such property.\<close>

record ToolResult =
  content :: "ContentBlock list"
  isError :: "bool option"

definition text_result :: "string \<Rightarrow> ToolResult" where
  "text_result t = \<lparr> content = [\<lparr> block_type = ''text'', block_text = t \<rparr>], isError = None \<rparr>"

definition error_flagged :: "ToolResult \<Rightarrow> bool" where
  "error_flagged r = (isError r = Some True)"

text \<open>The \<^verbatim>\<open>catch\<close> block of the call handler.\<close>

definition error_message :: "exn \<Rightarrow> string" where
  "error_message e =
     (case e of Error m \<Rightarrow> m | TypeError m \<Rightarrow> m | NonError \<Rightarrow> ''Unknown error occurred'')"

definition catch_result :: "exn \<Rightarrow> ToolResult" where
  "catch_result e =
     \<lparr> content = [\<lparr> block_type = ''text'', block_text = ''Error: '' @ error_message e \<rparr>],
       isError = Some True \<rparr>"

definition missing_token_result :: ToolResult where
  "missing_token_result =
     \<lparr> content = [\<lparr> block_type = ''text'',
                    block_text = ''Error: GOCARDLESS_ACCESS_TOKEN environment variable is not set. Please configure your GoCardless access token.'' \<rparr>],
       isError = None \<rparr>"

text \<open>
  Every \<^verbatim>\<open>case\<close> of the handler has one shape: it checks and builds the request (and
  may throw before any call), awaits \<^verbatim>\<open>makeGoCardlessRequest\<close>, and renders the data.
\<close>

definition invoke ::
  "config \<Rightarrow> fetcher \<Rightarrow> exn + string \<times> options \<Rightarrow> (jsval \<Rightarrow> exn + ToolResult)
   \<Rightarrow> (exn + ToolResult) \<times> fetch_call list" where
  "invoke cfg fetch request render =
     (case request of
        Inl e \<Rightarrow> (Inl e, [])
      | Inr (endpoint, opts) \<Rightarrow>
          (case makeGoCardlessRequest cfg fetch endpoint opts of
             (Inl e, calls) \<Rightarrow> (Inl e, calls)
           | (Inr data, calls) \<Rightarrow> (render data, calls)))"

text \<open>Pieces of templates that several tools share.\<close>

definition field2 :: "jsval \<Rightarrow> string \<Rightarrow> string \<Rightarrow> exn + string" where
  "field2 v k1 k2 = andThen (get_prop v k1) (\<lambda>w. field w k2)"

text \<open>\<^verbatim>\<open>${v || d}\<close>\<close>

definition or_default :: "jsval \<Rightarrow> string \<Rightarrow> exn + string" where
  "or_default v d = (if truthy v then to_string v else Inr d)"

text \<open>\<^verbatim>\<open>${v.k1?.k2 || d}\<close>\<close>

definition nested_or :: "jsval \<Rightarrow> string \<Rightarrow> string \<Rightarrow> string \<Rightarrow> exn + string" where
  "nested_or v k1 k2 d = andThen (get_prop v k1) (\<lambda>w. or_default (opt_prop w k2) d)"

text \<open>\<^verbatim>\<open>${(a / 100).toFixed(2)}\<close>\<close>

definition amount_text :: "jsval \<Rightarrow> exn + string" where
  "amount_text a = andThen (to_number a) (\<lambda>n. Inr (hundredth_toFixed2 n))"

text \<open>\<^verbatim>\<open>${v.payment_request?.amount ? (v.payment_request.amount / 100).toFixed(2) : 'N/A'}\<close>\<close>

definition request_amount :: "jsval \<Rightarrow> exn + string" where
  "request_amount v =
     andThen (get_prop v ''payment_request'')
       (\<lambda>w. if truthy (opt_prop w ''amount'')
            then andThen (get_prop v ''payment_request'')
                   (\<lambda>w'. andThen (get_prop w' ''amount'') amount_text)
            else Inr ''N/A'')"

text \<open>\<^verbatim>\<open>${JSON.stringify(v.metadata, null, 2)}\<close>\<close>

definition metadata_text :: "jsval \<Rightarrow> exn + string" where
  "metadata_text v =
     andThen (get_prop v ''metadata'')
       (\<lambda>m. Inr (case JSON_stringify_indent2 m of None \<Rightarrow> ''undefined'' | Some s \<Rightarrow> s))"

definition rendered :: "(exn + string) list \<Rightarrow> exn + ToolResult" where
  "rendered parts = andThen (template parts) (\<lambda>t. Inr (text_result t))"

text \<open>\<^verbatim>\<open>v.map(f).join('\n\n')\<close>\<close>

definition joined_lines :: "string \<Rightarrow> jsval \<Rightarrow> (jsval \<Rightarrow> exn + string) \<Rightarrow> exn + string" where
  "joined_lines expr v f = andThen (call_map expr v f) (\<lambda>ls. Inr (join (NL @ NL) ls))"

text \<open>A filter that is copied to the query only when it is a non-empty string.\<close>

definition set_if_string :: "(string \<times> string) list \<Rightarrow> string \<Rightarrow> jsval \<Rightarrow> (string \<times> string) list" where
  "set_if_string q k v =
     (if truthy v \<and> typeof v = ''string'' then params_set q k (str_of v) else q)"

text \<open>\<^verbatim>\<open>if (args?.limit) queryParams.set('limit', args.limit.toString())\<close>\<close>

definition set_limit :: "(string \<times> string) list \<Rightarrow> jsval \<Rightarrow> exn + (string \<times> string) list" where
  "set_limit q args =
     (if truthy (opt_prop args ''limit'')
      then andThen (call_toString ''args.limit'' (opt_prop args ''limit''))
             (\<lambda>s. Inr (params_set q ''limit'' s))
      else Inr q)"

subsection \<open>The tool handlers\<close>

text \<open>
  One pair of definitions for each \<^verbatim>\<open>case\<close> of the \<^verbatim>\<open>switch\<close>: the request it builds from
  the arguments, and the result it renders from the data. Where the source reads
  \<^verbatim>\<open>args.k\<close> it has made sure before that \<^verbatim>\<open>args\<close> is not \<^verbatim>\<open>undefined\<close>, so the read
  cannot throw and is written \<open>opt_prop args k\<close>.
\<close>

paragraph \<open>list_customers\<close>

definition list_customers_params :: "jsval \<Rightarrow> exn + (string \<times> string) list" where
  "list_customers_params args =
     andThen (set_limit [] args)
       (\<lambda>q. Inr (set_if_string q ''after'' (opt_prop args ''after'')))"

definition list_customers_request :: "jsval \<Rightarrow> exn + string \<times> options" where
  "list_customers_request args =
     andThen (list_customers_params args)
       (\<lambda>q. Inr (''/customers?'' @ params_toString q, no_options))"

definition customer_lines :: "jsval \<Rightarrow> exn + string" where
  "customer_lines customer =
     template [lit (bullet @ '' ''), field customer ''given_name'', lit '' '',
               field customer ''family_name'', lit '' ('', field customer ''email'',
               lit ('')'' @ NL @ ''  ID: ''), field customer ''id'',
               lit (NL @ ''  Created: ''), field customer ''created_at'']"

definition list_customers_result :: "jsval \<Rightarrow> exn + ToolResult" where
  "list_customers_result data =
     rendered [lit ''Found '', field2 data ''customers'' ''length'',
               lit ('' customers:'' @ NL @ NL),
               andThen (get_prop data ''customers'')
                 (\<lambda>cs. joined_lines ''data.customers'' cs customer_lines)]"

paragraph \<open>create_customer\<close>

definition string_given :: "jsval \<Rightarrow> bool" where
  "string_given v = (truthy v \<and> typeof v = ''string'')"

definition customerData :: "jsval \<Rightarrow> jsval" where
  "customerData args =
     Obj [(''customers'',
           Obj ([(''email'', opt_prop args ''email''),
                 (''given_name'', opt_prop args ''given_name''),
                 (''family_name'', opt_prop args ''family_name'')]
                @ (if string_given (opt_prop args ''company_name'')
                   then [(''company_name'', opt_prop args ''company_name'')] else [])
                @ (if string_given (opt_prop args ''address_line1'')
                   then [(''address_line1'', opt_prop args ''address_line1''),
                         (''city'', opt_prop args ''city''),
                         (''postal_code'', opt_prop args ''postal_code''),
                         (''country_code'', opt_prop args ''country_code'')]
                   else [])))]"

definition create_customer_request :: "jsval \<Rightarrow> exn + string \<times> options" where
  "create_customer_request args =
     (if \<not> truthy args then Inl (Error ''Arguments required for create_customer'')
      else Inr (''/customers'', post (JSON_stringify (customerData args))))"

definition create_customer_result :: "jsval \<Rightarrow> exn + ToolResult" where
  "create_customer_result data =
     andThen (get_prop data ''customers'')
       (\<lambda>customer.
          rendered [lit (''Successfully created customer:'' @ NL @ NL @ ''Name: ''),
                    field customer ''given_name'', lit '' '', field customer ''family_name'',
                    lit (NL @ ''Email: ''), field customer ''email'',
                    lit (NL @ ''ID: ''), field customer ''id'',
                    lit (NL @ ''Created: ''), field customer ''created_at''])"

paragraph \<open>get_customer\<close>

definition get_customer_request :: "jsval \<Rightarrow> exn + string \<times> options" where
  "get_customer_request args =
     (if \<not> truthy (opt_prop args ''customer_id'') then Inl (Error ''customer_id is required'')
      else andThen (to_string (opt_prop args ''customer_id''))
             (\<lambda>cid. Inr (''/customers/'' @ cid, no_options)))"

definition get_customer_result :: "jsval \<Rightarrow> exn + ToolResult" where
  "get_customer_result data =
     andThen (get_prop data ''customers'')
       (\<lambda>customer.
          rendered [lit (''Customer Details:'' @ NL @ NL @ ''Name: ''),
                    field customer ''given_name'', lit '' '', field customer ''family_name'',
                    lit (NL @ ''Email: ''), field customer ''email'',
                    lit (NL @ ''ID: ''), field customer ''id'',
                    lit (NL @ ''Created: ''), field customer ''created_at'',
                    lit (NL @ ''Language: ''), field customer ''language'',
                    lit (NL @ ''Metadata: ''), metadata_text customer])"

paragraph \<open>list_customer_bank_accounts\<close>

definition list_customer_bank_accounts_request :: "jsval \<Rightarrow> exn + string \<times> options" where
  "list_customer_bank_accounts_request args =
     (if \<not> truthy (opt_prop args ''customer_id'') then Inl (Error ''customer_id is required'')
      else andThen (to_string (opt_prop args ''customer_id''))
             (\<lambda>cid. Inr (''/customer_bank_accounts?customer='' @ cid, no_options)))"

definition account_lines :: "jsval \<Rightarrow> exn + string" where
  "account_lines account =
     template [lit (bullet @ '' Account ending in ''), field account ''account_number_ending'',
               lit (NL @ ''  ID: ''), field account ''id'',
               lit (NL @ ''  Bank: ''), field account ''bank_name'',
               lit (NL @ ''  Status: ''),
               andThen (get_prop account ''enabled'')
                 (\<lambda>e. Inr (if truthy e then ''Active'' else ''Inactive''))]"

definition list_customer_bank_accounts_result :: "jsval \<Rightarrow> exn + ToolResult" where
  "list_customer_bank_accounts_result data =
     andThen (andThen (get_prop data ''customer_bank_accounts'') (\<lambda>xs. get_prop xs ''length''))
       (\<lambda>n. if n = Num 0
            then Inr (text_result ''No bank accounts found for this customer. They may need to complete a redirect flow to add their bank details.'')
            else rendered [lit ''Found '', field2 data ''customer_bank_accounts'' ''length'',
                           lit ('' bank account(s):'' @ NL @ NL),
                           andThen (get_prop data ''customer_bank_accounts'')
                             (\<lambda>xs. joined_lines ''data.customer_bank_accounts'' xs account_lines)])"

paragraph \<open>create_redirect_flow\<close>

definition redirectFlowData :: "jsval \<Rightarrow> jsval" where
  "redirectFlowData args =
     Obj [(''redirect_flows'',
           Obj ([(''description'', opt_prop args ''description''),
                 (''session_token'', opt_prop args ''session_token''),
                 (''success_redirect_url'', opt_prop args ''success_redirect_url'')]
                @ (if truthy (opt_prop args ''prefilled_customer'')
                      \<and> typeof (opt_prop args ''prefilled_customer'') = ''object''
                   then [(''prefilled_customer'', opt_prop args ''prefilled_customer'')]
                   else [])))]"

definition create_redirect_flow_request :: "jsval \<Rightarrow> exn + string \<times> options" where
  "create_redirect_flow_request args =
     (if \<not> truthy args then Inl (Error ''Arguments required for create_redirect_flow'')
      else Inr (''/redirect_flows'', post (JSON_stringify (redirectFlowData args))))"

definition create_redirect_flow_result :: "jsval \<Rightarrow> exn + ToolResult" where
  "create_redirect_flow_result data =
     andThen (get_prop data ''redirect_flows'')
       (\<lambda>redirectFlow.
          rendered [lit (''Successfully created redirect flow:'' @ NL @ NL @ ''ID: ''),
                    field redirectFlow ''id'',
                    lit (NL @ ''Redirect URL: ''), field redirectFlow ''redirect_url'',
                    lit (NL @ NL
                         @ ''Send your customer to the redirect URL to collect their bank details. ''
                         @ ''After they complete the process, you'' @ [CHR 0x27]
                         @ ''ll need to complete the redirect flow ''
                         @ ''to create the mandate and customer bank account.'')])"

paragraph \<open>list_payments\<close>

definition list_payments_params :: "jsval \<Rightarrow> exn + (string \<times> string) list" where
  "list_payments_params args =
     andThen (set_limit [] args)
       (\<lambda>q. Inr (set_if_string (set_if_string q ''customer'' (opt_prop args ''customer''))
                    ''status'' (opt_prop args ''status'')))"

definition list_payments_request :: "jsval \<Rightarrow> exn + string \<times> options" where
  "list_payments_request args =
     andThen (list_payments_params args)
       (\<lambda>q. Inr (''/payments?'' @ params_toString q, no_options))"

definition payment_lines :: "jsval \<Rightarrow> exn + string" where
  "payment_lines payment =
     template [lit (bullet @ '' Amount: ''), field payment ''currency'', lit '' '',
               andThen (get_prop payment ''amount'') amount_text,
               lit (NL @ ''  ID: ''), field payment ''id'',
               lit (NL @ ''  Status: ''), field payment ''status'',
               lit (NL @ ''  Created: ''), field payment ''created_at'',
               lit (NL @ ''  Description: ''),
               andThen (get_prop payment ''description'') (\<lambda>d. or_default d ''No description'')]"

definition list_payments_result :: "jsval \<Rightarrow> exn + ToolResult" where
  "list_payments_result data =
     andThen (andThen (get_prop data ''payments'') (\<lambda>xs. get_prop xs ''length''))
       (\<lambda>n. if n = Num 0
            then Inr (text_result ''No payments found matching the criteria.'')
            else rendered [lit ''Found '', field2 data ''payments'' ''length'',
                           lit ('' payment(s):'' @ NL @ NL),
                           andThen (get_prop data ''payments'')
                             (\<lambda>xs. joined_lines ''data.payments'' xs payment_lines)])"

paragraph \<open>create_billing_request\<close>

definition billingRequestData :: "jsval \<Rightarrow> jsval" where
  "billingRequestData args =
     Obj [(''billing_requests'',
           Obj [(''purpose_code'', Str ''utility''),
                (''payment_request'',
                 Obj ([(''amount'', opt_prop args ''amount_cents''),
                       (''currency'', opt_prop args ''currency''),
                       (''description'', opt_prop args ''description'')]
                      @ (if truthy (opt_prop args ''payment_reference'')
                         then [(''reference'', opt_prop args ''payment_reference'')] else []))),
                (''mandate_request'',
                 Obj ([(''currency'', opt_prop args ''currency'')]
                      @ (if truthy (opt_prop args ''customer_email'')
                         then [(''payer'',
                                Obj ([(''email'', opt_prop args ''customer_email''),
                                      (''given_name'', opt_prop args ''customer_given_name''),
                                      (''family_name'', opt_prop args ''customer_family_name'')]
                                     @ (if truthy (opt_prop args ''customer_company_name'')
                                        then [(''company_name'',
                                               opt_prop args ''customer_company_name'')]
                                        else [])))]
                         else [])))])]"

definition create_billing_request_request :: "jsval \<Rightarrow> exn + string \<times> options" where
  "create_billing_request_request args =
     (if \<not> truthy args then Inl (Error ''Arguments required for create_billing_request'')
      else Inr (''/billing_requests'', post (JSON_stringify (billingRequestData args))))"

definition create_billing_request_result :: "jsval \<Rightarrow> jsval \<Rightarrow> exn + ToolResult" where
  "create_billing_request_result args data =
     andThen (get_prop data ''billing_requests'')
       (\<lambda>billingRequest.
          rendered [lit (''Successfully created billing request:'' @ NL @ NL @ ''ID: ''),
                    field billingRequest ''id'',
                    lit (NL @ ''Amount: ''), to_string (opt_prop args ''currency''), lit '' '',
                    amount_text (opt_prop args ''amount_cents''),
                    lit (NL @ ''Status: ''), field billingRequest ''status'',
                    lit (NL @ ''Description: ''), to_string (opt_prop args ''description''),
                    lit (NL @ ''Created: ''), field billingRequest ''created_at'',
                    lit (NL @ NL
                         @ ''Next step: Create a billing request flow to collect customer authorization.'')])"

paragraph \<open>create_billing_request_flow\<close>

definition flowData :: "jsval \<Rightarrow> jsval" where
  "flowData args =
     Obj [(''billing_request_flows'',
           Obj ([(''redirect_uri'', opt_prop args ''redirect_uri''),
                 (''links'', Obj [(''billing_request'', opt_prop args ''billing_request_id'')])]
                @ (if truthy (opt_prop args ''exit_uri'')
                   then [(''exit_uri'', opt_prop args ''exit_uri'')] else [])
                @ (if opt_prop args ''show_redirect_buttons'' \<noteq> Undefined
                   then [(''show_redirect_buttons'', opt_prop args ''show_redirect_buttons'')]
                   else [])))]"

definition create_billing_request_flow_request :: "jsval \<Rightarrow> exn + string \<times> options" where
  "create_billing_request_flow_request args =
     (if \<not> truthy args then Inl (Error ''Arguments required for create_billing_request_flow'')
      else Inr (''/billing_request_flows'', post (JSON_stringify (flowData args))))"

definition create_billing_request_flow_result :: "jsval \<Rightarrow> exn + ToolResult" where
  "create_billing_request_flow_result data =
     andThen (get_prop data ''billing_request_flows'')
       (\<lambda>flow.
          rendered [lit (''Successfully created billing request flow:'' @ NL @ NL @ ''Flow ID: ''),
                    field flow ''id'',
                    lit (NL @ ''Authorisation URL: ''), field flow ''authorisation_url'',
                    lit (NL @ ''Expires: ''), field flow ''expires_at'',
                    lit (NL @ NL
                         @ ''Send your customer to the authorisation URL to complete payment setup. ''
                         @ ''After they complete the process, you can fulfil the billing request to create the payment.'')])"

paragraph \<open>get_billing_request\<close>

definition get_billing_request_request :: "jsval \<Rightarrow> exn + string \<times> options" where
  "get_billing_request_request args =
     (if \<not> truthy (opt_prop args ''billing_request_id'')
      then Inl (Error ''billing_request_id is required'')
      else andThen (to_string (opt_prop args ''billing_request_id''))
             (\<lambda>bid. Inr (''/billing_requests/'' @ bid, no_options)))"

definition get_billing_request_result :: "jsval \<Rightarrow> exn + ToolResult" where
  "get_billing_request_result data =
     andThen (get_prop data ''billing_requests'')
       (\<lambda>billingRequest.
          rendered [lit (''Billing Request Details:'' @ NL @ NL @ ''ID: ''),
                    field billingRequest ''id'',
                    lit (NL @ ''Status: ''), field billingRequest ''status'',
                    lit (NL @ ''Amount: ''),
                    nested_or billingRequest ''payment_request'' ''currency'' ''N/A'', lit '' '',
                    request_amount billingRequest,
                    lit (NL @ ''Description: ''),
                    nested_or billingRequest ''payment_request'' ''description'' ''No description'',
                    lit (NL @ ''Created: ''), field billingRequest ''created_at'',
                    lit (NL @ ''Purpose: ''), field billingRequest ''purpose_code'',
                    lit (NL @ ''Reference: ''),
                    nested_or billingRequest ''payment_request'' ''reference'' ''None'',
                    lit (NL @ ''Metadata: ''), metadata_text billingRequest])"

paragraph \<open>list_billing_requests\<close>

definition list_billing_requests_params :: "jsval \<Rightarrow> exn + (string \<times> string) list" where
  "list_billing_requests_params args =
     andThen (set_limit [] args)
       (\<lambda>q. Inr (set_if_string (set_if_string q ''status'' (opt_prop args ''status''))
                    ''customer'' (opt_prop args ''customer'')))"

definition list_billing_requests_request :: "jsval \<Rightarrow> exn + string \<times> options" where
  "list_billing_requests_request args =
     andThen (list_billing_requests_params args)
       (\<lambda>q. Inr (''/billing_requests?'' @ params_toString q, no_options))"

definition billing_request_lines :: "jsval \<Rightarrow> exn + string" where
  "billing_request_lines request =
     template [lit (bullet @ '' Amount: ''),
               nested_or request ''payment_request'' ''currency'' ''N/A'', lit '' '',
               request_amount request,
               lit (NL @ ''  ID: ''), field request ''id'',
               lit (NL @ ''  Status: ''), field request ''status'',
               lit (NL @ ''  Created: ''), field request ''created_at'',
               lit (NL @ ''  Description: ''),
               nested_or request ''payment_request'' ''description'' ''No description'']"

definition list_billing_requests_result :: "jsval \<Rightarrow> exn + ToolResult" where
  "list_billing_requests_result data =
     andThen (andThen (get_prop data ''billing_requests'') (\<lambda>xs. get_prop xs ''length''))
       (\<lambda>n. if n = Num 0
            then Inr (text_result ''No billing requests found matching the criteria.'')
            else rendered [lit ''Found '', field2 data ''billing_requests'' ''length'',
                           lit ('' billing request(s):'' @ NL @ NL),
                           andThen (get_prop data ''billing_requests'')
                             (\<lambda>xs. joined_lines ''data.billing_requests'' xs
                                     billing_request_lines)])"

paragraph \<open>fulfil_billing_request\<close>

definition fulfil_billing_request_request :: "jsval \<Rightarrow> exn + string \<times> options" where
  "fulfil_billing_request_request args =
     (if \<not> truthy (opt_prop args ''billing_request_id'')
      then Inl (Error ''billing_request_id is required'')
      else andThen (to_string (opt_prop args ''billing_request_id''))
             (\<lambda>bid. Inr (''/billing_requests/'' @ bid @ ''/actions/fulfil'',
                         post (JSON_stringify (Obj [])))))"

definition fulfil_billing_request_result :: "jsval \<Rightarrow> exn + ToolResult" where
  "fulfil_billing_request_result data =
     andThen (get_prop data ''billing_requests'')
       (\<lambda>billingRequest.
          rendered [lit (''Successfully fulfilled billing request:'' @ NL @ NL @ ''ID: ''),
                    field billingRequest ''id'',
                    lit (NL @ ''Status: ''), field billingRequest ''status'',
                    lit (NL @ ''Payment created: ''),
                    andThen (get_prop billingRequest ''status'')
                      (\<lambda>st. Inr (if st = Str ''fulfilled'' then ''Yes'' else ''No'')),
                    lit (NL @ NL
                         @ ''The billing request has been processed and payment collection has been initiated.'')])"

subsection \<open>The call handler\<close>

text \<open>
  The handler of \<^verbatim>\<open>CallToolRequestSchema\<close>: the test of the access token, the \<^verbatim>\<open>switch\<close>
  on the tool name, and the \<^verbatim>\<open>catch\<close> that turns whatever was thrown into a result.
  It returns the result together with the calls made to \<open>fetch\<close>.
\<close>

definition dispatch ::
  "config \<Rightarrow> fetcher \<Rightarrow> string \<Rightarrow> jsval \<Rightarrow> (exn + ToolResult) \<times> fetch_call list" where
  "dispatch cfg fetch name args =
     (if name = ''list_customers'' then
        invoke cfg fetch (list_customers_request args) list_customers_result
      else if name = ''create_customer'' then
        invoke cfg fetch (create_customer_request args) create_customer_result
      else if name = ''get_customer'' then
        invoke cfg fetch (get_customer_request args) get_customer_result
      else if name = ''list_customer_bank_accounts'' then
        invoke cfg fetch (list_customer_bank_accounts_request args)
          list_customer_bank_accounts_result
      else if name = ''create_redirect_flow'' then
        invoke cfg fetch (create_redirect_flow_request args) create_redirect_flow_result
      else if name = ''list_payments'' then
        invoke cfg fetch (list_payments_request args) list_payments_result
      else if name = ''create_billing_request'' then
        invoke cfg fetch (create_billing_request_request args)
          (create_billing_request_result args)
      else if name = ''create_billing_request_flow'' then
        invoke cfg fetch (create_billing_request_flow_request args)
          create_billing_request_flow_result
      else if name = ''get_billing_request'' then
        invoke cfg fetch (get_billing_request_request args) get_billing_request_result
      else if name = ''list_billing_requests'' then
        invoke cfg fetch (list_billing_requests_request args) list_billing_requests_result
      else if name = ''fulfil_billing_request'' then
        invoke cfg fetch (fulfil_billing_request_request args) fulfil_billing_request_result
      else (Inl (Error (''Unknown tool: '' @ name)), []))"

definition callTool ::
  "config \<Rightarrow> fetcher \<Rightarrow> string \<Rightarrow> jsval \<Rightarrow> ToolResult \<times> fetch_call list" where
  "callTool cfg fetch name args =
     (if accessToken cfg = [] then (missing_token_result, [])
      else (case dispatch cfg fetch name args of
              (Inr result, calls) \<Rightarrow> (result, calls)
            | (Inl e, calls) \<Rightarrow> (catch_result e, calls)))"

subsection \<open>The tool registry\<close>

text \<open>
  A node of an input schema, with the keys the source uses: \<^verbatim>\<open>type\<close>,
  \<^verbatim>\<open>description\<close>, \<^verbatim>\<open>format\<close>, \<^verbatim>\<open>enum\<close>, \<^verbatim>\<open>default\<close>, \<^verbatim>\<open>properties\<close> and
  \<^verbatim>\<open>required\<close>; \<open>None\<close> where a node has no such key.
\<close>

datatype SchemaNode =
  SchemaNode (node_type: string) (node_description: "string option")
    (node_format: "string option") (node_enum: "string list option")
    (node_default: "jsval option") (properties: "(string \<times> SchemaNode) list option")
    (required: "string list option")

record Tool =
  name :: string
  description :: string
  inputSchema :: SchemaNode

definition string_node :: "string \<Rightarrow> SchemaNode" where
  "string_node d = SchemaNode ''string'' (Some d) None None None None None"

definition format_node :: "string \<Rightarrow> string \<Rightarrow> SchemaNode" where
  "format_node d f = SchemaNode ''string'' (Some d) (Some f) None None None None"

definition enum_node :: "string \<Rightarrow> string list \<Rightarrow> SchemaNode" where
  "enum_node d vs = SchemaNode ''string'' (Some d) None (Some vs) None None None"

definition limit_node :: "string \<Rightarrow> SchemaNode" where
  "limit_node d = SchemaNode ''number'' (Some d) None None (Some (Num 50)) None None"

definition object_schema :: "(string \<times> SchemaNode) list \<Rightarrow> string list option \<Rightarrow> SchemaNode" where
  "object_schema ps req = SchemaNode ''object'' None None None None (Some ps) req"

definition list_customers_tool :: Tool where
  "list_customers_tool =
     \<lparr> name = ''list_customers'',
       description = ''List customers from GoCardless. Useful for finding existing customers before creating payments.'',
       inputSchema = object_schema
         [(''limit'', limit_node ''Maximum number of customers to return (default: 50, max: 500)''),
          (''after'', string_node ''Cursor for pagination - get customers after this ID'')]
         None \<rparr>"

definition create_customer_tool :: Tool where
  "create_customer_tool =
     \<lparr> name = ''create_customer'',
       description = ''Create a new customer in GoCardless. Required before setting up payments.'',
       inputSchema = object_schema
         [(''email'', format_node ''Customer email address'' ''email''),
          (''given_name'', string_node ''Customer first name''),
          (''family_name'', string_node ''Customer last name''),
          (''company_name'', string_node ''Company name (optional)''),
          (''address_line1'', string_node ''First line of address''),
          (''city'', string_node ''City''),
          (''postal_code'', string_node ''Postal/ZIP code''),
          (''country_code'', string_node ''Two-letter country code (e.g., GB, US)'')]
         (Some [''email'', ''given_name'', ''family_name'']) \<rparr>"

definition get_customer_tool :: Tool where
  "get_customer_tool =
     \<lparr> name = ''get_customer'',
       description = ''Get details of a specific customer by their ID.'',
       inputSchema = object_schema
         [(''customer_id'', string_node ''The GoCardless customer ID'')]
         (Some [''customer_id'']) \<rparr>"

definition list_customer_bank_accounts_tool :: Tool where
  "list_customer_bank_accounts_tool =
     \<lparr> name = ''list_customer_bank_accounts'',
       description = ''List bank accounts (mandates) for a specific customer.'',
       inputSchema = object_schema
         [(''customer_id'', string_node ''The GoCardless customer ID'')]
         (Some [''customer_id'']) \<rparr>"

definition create_redirect_flow_tool :: Tool where
  "create_redirect_flow_tool =
     \<lparr> name = ''create_redirect_flow'',
       description = ''Create a redirect flow to collect customer bank details. This generates a URL where customers can securely enter their bank account information.'',
       inputSchema = object_schema
         [(''description'', string_node ''Description of what the payment is for''),
          (''session_token'', string_node ''Unique session token to prevent CSRF attacks''),
          (''success_redirect_url'', format_node ''URL to redirect to after successful setup'' ''uri''),
          (''prefilled_customer'',
           SchemaNode ''object'' (Some ''Pre-fill customer information'') None None None
             (Some [(''given_name'', SchemaNode ''string'' None None None None None None),
                    (''family_name'', SchemaNode ''string'' None None None None None None),
                    (''email'', SchemaNode ''string'' None (Some ''email'') None None None None),
                    (''company_name'', SchemaNode ''string'' None None None None None None)])
             None)]
         (Some [''description'', ''session_token'', ''success_redirect_url'']) \<rparr>"

definition list_payments_tool :: Tool where
  "list_payments_tool =
     \<lparr> name = ''list_payments'',
       description = ''List payments from GoCardless. Useful for checking payment status and history.'',
       inputSchema = object_schema
         [(''limit'', limit_node ''Maximum number of payments to return (default: 50)''),
          (''customer'', string_node ''Filter by customer ID''),
          (''status'', enum_node ''Filter by payment status''
             [''pending_customer_approval'', ''pending_submission'', ''submitted'',
              ''confirmed'', ''paid_out'', ''cancelled'', ''customer_approval_denied'',
              ''failed'', ''charged_back''])]
         None \<rparr>"

definition create_billing_request_tool :: Tool where
  "create_billing_request_tool =
     \<lparr> name = ''create_billing_request'',
       description = ''Create a billing request for collecting payments. This is the modern GoCardless approach for payment collection that combines mandate setup and payment creation.'',
       inputSchema = object_schema
         [(''amount_cents'',
           SchemaNode ''number''
             (Some (''Payment amount in cents/pence (e.g., 2999 for '' @ [CHR 0xC2, CHR 0xA3]
                    @ ''29.99)''))
             None None None None None),
          (''currency'', enum_node ''Payment currency (e.g., GBP, EUR, USD)''
             [''GBP'', ''EUR'', ''USD'', ''SEK'', ''DKK'', ''AUD'', ''NZD'']),
          (''description'', string_node ''Description of what the payment is for''),
          (''customer_email'', format_node ''Customer email address'' ''email''),
          (''customer_given_name'', string_node ''Customer first name''),
          (''customer_family_name'', string_node ''Customer last name''),
          (''customer_company_name'', string_node ''Customer company name (optional)''),
          (''payment_reference'', string_node ''Reference for the payment (optional)'')]
         (Some [''amount_cents'', ''currency'', ''description'', ''customer_email'',
                ''customer_given_name'', ''customer_family_name'']) \<rparr>"

definition create_billing_request_flow_tool :: Tool where
  "create_billing_request_flow_tool =
     \<lparr> name = ''create_billing_request_flow'',
       description = ''Create a billing request flow to collect customer details and authorize payments. This generates a URL where customers can complete the entire payment setup process.'',
       inputSchema = object_schema
         [(''billing_request_id'', string_node ''The ID of the billing request to create a flow for''),
          (''redirect_uri'', format_node ''URL to redirect customer to after completing the flow'' ''uri''),
          (''exit_uri'', format_node ''URL to redirect customer to if they exit the flow (optional)'' ''uri''),
          (''session_token'', string_node ''Unique session token to prevent CSRF attacks''),
          (''show_redirect_buttons'',
           SchemaNode ''boolean''
             (Some ''Whether to show redirect buttons in the flow (default: true)'')
             None None (Some (Bool True)) None None)]
         (Some [''billing_request_id'', ''redirect_uri'', ''session_token'']) \<rparr>"

definition get_billing_request_tool :: Tool where
  "get_billing_request_tool =
     \<lparr> name = ''get_billing_request'',
       description = ''Get details of a specific billing request by its ID, including status and any associated payments.'',
       inputSchema = object_schema
         [(''billing_request_id'', string_node ''The GoCardless billing request ID'')]
         (Some [''billing_request_id'']) \<rparr>"

definition list_billing_requests_tool :: Tool where
  "list_billing_requests_tool =
     \<lparr> name = ''list_billing_requests'',
       description = ''List billing requests from GoCardless. Useful for monitoring payment collection status.'',
       inputSchema = object_schema
         [(''limit'', limit_node ''Maximum number of billing requests to return (default: 50)''),
          (''status'', enum_node ''Filter by billing request status''
             [''pending'', ''ready_to_fulfil'', ''fulfilled'', ''cancelled'']),
          (''customer'', string_node ''Filter by customer ID'')]
         None \<rparr>"

definition fulfil_billing_request_tool :: Tool where
  "fulfil_billing_request_tool =
     \<lparr> name = ''fulfil_billing_request'',
       description = ''Fulfil a billing request to create the actual payment. Call this after the customer has completed the billing request flow.'',
       inputSchema = object_schema
         [(''billing_request_id'', string_node ''The GoCardless billing request ID to fulfil'')]
         (Some [''billing_request_id'']) \<rparr>"

definition tools :: "Tool list" where
  "tools =
     [list_customers_tool, create_customer_tool, get_customer_tool,
      list_customer_bank_accounts_tool, create_redirect_flow_tool, list_payments_tool,
      create_billing_request_tool, create_billing_request_flow_tool,
      get_billing_request_tool, list_billing_requests_tool, fulfil_billing_request_tool]"

text \<open>The handler of \<^verbatim>\<open>ListToolsRequestSchema\<close> returns the registry as it is.\<close>

definition listTools :: "Tool list" where
  "listTools = tools"

text \<open>The \<^verbatim>\<open>required\<close> list of the schema of the tool with the given name.\<close>

definition required_fields :: "string \<Rightarrow> string list" where
  "required_fields n =
     (case find (\<lambda>t. name t = n) tools of
        None \<Rightarrow> []
      | Some t \<Rightarrow> (case required (inputSchema t) of None \<Rightarrow> [] | Some ks \<Rightarrow> ks))"

text \<open>What every result of a call looks like: one content block, of type \<open>text\<close>.\<close>

definition one_text_block :: "ToolResult \<Rightarrow> bool" where
  "one_text_block r = (length (content r) = 1 \<and> block_type (hd (content r)) = ''text'')"



text \<open>
  The tools whose only argument is the identifier they need for the path of the request,
  and the tools that send a body built from their arguments.
\<close>

definition id_tools :: "string list" where
  "id_tools = [''get_customer'', ''list_customer_bank_accounts'', ''get_billing_request'',
               ''fulfil_billing_request'']"

definition create_tools :: "string list" where
  "create_tools = [''create_customer'', ''create_redirect_flow'', ''create_billing_request'',
                   ''create_billing_request_flow'']"

subsection \<open>Concrete inputs\<close>

text \<open>
  A configuration with a token, a network that answers every call with the same
  response, and a response with status 200 whose body parses to the given data.
\<close>

definition test_config :: config where
  "test_config = GOCARDLESS_CONFIG None (Some ''live_token'')"

definition answering :: "response \<Rightarrow> fetcher" where
  "answering r = (\<lambda>call. Inr r)"

definition ok_response :: "jsval \<Rightarrow> response" where
  "ok_response data =
     \<lparr> status = 200, statusText = ''OK'', text_body = Inr [], json_body = Inr data \<rparr>"

text \<open>Replies and arguments used to evaluate the handler.\<close>

definition no_customers :: jsval where
  "no_customers = Obj [(''customers'', Arr [])]"

definition cursor_args :: jsval where
  "cursor_args = Obj [(''after'', Str ''CU123'')]"

definition args_without_email :: jsval where
  "args_without_email = Obj [(''given_name'', Str ''Ada''), (''family_name'', Str ''Lovelace'')]"

definition created_customer :: jsval where
  "created_customer =
     Obj [(''customers'',
           Obj [(''id'', Str ''CU123''), (''created_at'', Str ''2024-01-01T00:00:00.000Z''),
                (''email'', Null), (''given_name'', Str ''Ada''),
                (''family_name'', Str ''Lovelace'')])]"






section \<open>Properties\<close>

subsection \<open>Basic facts\<close>

text \<open>How \<open>andThen\<close> succeeds and fails.\<close>

lemma andThen_Inr: "andThen m f = Inr y \<longleftrightarrow> (\<exists>x. m = Inr x \<and> f x = Inr y)"
  by (cases m) (simp_all add: andThen_def)

lemma andThen_Inl: "andThen m f = Inl e \<longleftrightarrow> m = Inl e \<or> (\<exists>x. m = Inr x \<and> f x = Inl e)"
  by (cases m) (simp_all add: andThen_def)


text \<open>The registry and the sample configuration.\<close>

lemma tool_names:
  "map name tools =
     [''list_customers'', ''create_customer'', ''get_customer'',
      ''list_customer_bank_accounts'', ''create_redirect_flow'', ''list_payments'',
      ''create_billing_request'', ''create_billing_request_flow'',
      ''get_billing_request'', ''list_billing_requests'', ''fulfil_billing_request'']"
  by (simp add: tools_def list_customers_tool_def create_customer_tool_def
      get_customer_tool_def list_customer_bank_accounts_tool_def
      create_redirect_flow_tool_def list_payments_tool_def create_billing_request_tool_def
      create_billing_request_flow_tool_def get_billing_request_tool_def
      list_billing_requests_tool_def fulfil_billing_request_tool_def)

lemma test_config_token: "accessToken test_config \<noteq> []"
  by (simp add: test_config_def GOCARDLESS_CONFIG_def env_or_def)

text \<open>A field that is not in the arguments reads as \<^verbatim>\<open>undefined\<close>.\<close>

lemma lookup_absent: "k \<notin> fst ` set kvs \<Longrightarrow> lookup kvs k = Undefined"
proof -
  assume "k \<notin> fst ` set kvs"
  then have "map_of kvs k = None" by (simp add: map_of_eq_None_iff)
  then show ?thesis by (simp add: lookup_def)
qed

lemma opt_prop_absent: "\<not> has_field args k \<Longrightarrow> k \<noteq> ''length'' \<Longrightarrow> opt_prop args k = Undefined"
  by (cases args) (simp_all add: lookup_absent)

text \<open>The result and the requests of a call, by the outcome of the \<^verbatim>\<open>switch\<close>.\<close>

lemma callTool_no_token: "accessToken cfg = [] \<Longrightarrow> callTool cfg fetch n args = (missing_token_result, [])"
  by (simp add: callTool_def)


lemma callTool_calls: "accessToken cfg \<noteq> [] \<Longrightarrow> snd (callTool cfg fetch n args) = snd (dispatch cfg fetch n args)"
  by (auto simp: callTool_def split: prod.splits sum.splits)

lemma callTool_throw:
  "accessToken cfg \<noteq> [] \<Longrightarrow> dispatch cfg fetch n args = (Inl e, calls) \<Longrightarrow>
   callTool cfg fetch n args = (catch_result e, calls)"
  by (simp add: callTool_def)

lemma invoke_throw: "invoke cfg fetch (Inl e) render = (Inl e, [])"
  by (simp add: invoke_def)

lemma invoke_calls:
  "invoke cfg fetch (Inr (endpoint, opts)) render = (res, calls) \<Longrightarrow>
   map url calls = [getApiBaseUrl cfg @ endpoint]"
  by (auto simp: invoke_def makeGoCardlessRequest_def Let_def split: sum.splits prod.splits if_splits)

lemma invoke_url:
  "map url (snd (invoke cfg fetch (Inr (endpoint, opts)) render)) = [getApiBaseUrl cfg @ endpoint]"
  by (cases "invoke cfg fetch (Inr (endpoint, opts)) render") (auto dest: invoke_calls)

text \<open>The two results that do not come from a \<^verbatim>\<open>case\<close>.\<close>

lemma missing_token_text:
  "block_text (hd (content missing_token_result)) =
     ''Error: '' @ ''GOCARDLESS_ACCESS_TOKEN environment variable is not set'' @ ''. Please configure your GoCardless access token.''"
  by (simp add: missing_token_result_def)

lemma catch_result_text: "block_text (hd (content (catch_result e))) = ''Error: '' @ error_message e"
  by (simp add: catch_result_def)

lemma error_flagged_catch_result: "error_flagged (catch_result e)"
  by (simp add: error_flagged_def catch_result_def)

subsection \<open>Base URL selection\<close>

lemma hosts_differ: "live_host \<noteq> sandbox_host"
  by (simp add: live_host_def sandbox_host_def)

lemma env_or_live: "env_or e ''sandbox'' = ''live'' \<longleftrightarrow> e = Some ''live''"
  by (cases e) (auto simp: env_or_def)

text \<open>
  Claim C5. The base URL depends on the configured environment only: it is the live host
  exactly when the environment variable is the string \<open>live\<close>; for \<open>sandbox\<close>,
  \<open>production\<close>, the empty string and an unset variable it is the sandbox host.
\<close>

theorem getApiBaseUrl_live_iff:
  "(getApiBaseUrl (GOCARDLESS_CONFIG e t) = live_host) = (e = Some ''live'')
   \<and> (getApiBaseUrl cfg = live_host) = (environment cfg = ''live'')
   \<and> getApiBaseUrl (GOCARDLESS_CONFIG (Some ''live'') t) = ''https://api.gocardless.com''
   \<and> getApiBaseUrl (GOCARDLESS_CONFIG (Some ''sandbox'') t) = ''https://api-sandbox.gocardless.com''
   \<and> getApiBaseUrl (GOCARDLESS_CONFIG (Some ''production'') t) = ''https://api-sandbox.gocardless.com''
   \<and> getApiBaseUrl (GOCARDLESS_CONFIG (Some []) t) = ''https://api-sandbox.gocardless.com''
   \<and> getApiBaseUrl (GOCARDLESS_CONFIG None t) = ''https://api-sandbox.gocardless.com''"
proof -
  have "(getApiBaseUrl (GOCARDLESS_CONFIG e t) = live_host) = (e = Some ''live'')"
    using hosts_differ by (simp add: getApiBaseUrl_def GOCARDLESS_CONFIG_def env_or_live)
  moreover have "(getApiBaseUrl cfg = live_host) = (environment cfg = ''live'')"
    using hosts_differ by (simp add: getApiBaseUrl_def)
  ultimately show ?thesis
    by (simp add: getApiBaseUrl_def GOCARDLESS_CONFIG_def env_or_def
        live_host_def sandbox_host_def)
qed

subsection \<open>The missing access token\<close>

text \<open>
  Claim C4. For every tool name and every argument mapping, when the configured access
  token is the empty string, the result of the call is not error-flagged, its text
  mentions that the access token is not configured, and no request is issued.
\<close>

theorem callTool_missing_token:
  assumes "accessToken cfg = []"
  shows "callTool cfg fetch n args = (missing_token_result, [])
    \<and> \<not> error_flagged (fst (callTool cfg fetch n args))
    \<and> sublist ''GOCARDLESS_ACCESS_TOKEN environment variable is not set''
           (block_text (hd (content (fst (callTool cfg fetch n args)))))
    \<and> snd (callTool cfg fetch n args) = []"
proof -
  have eq: "callTool cfg fetch n args = (missing_token_result, [])"
    using assms by (rule callTool_no_token)
  have "\<not> error_flagged missing_token_result"
    by (simp add: error_flagged_def missing_token_result_def)
  moreover have "sublist ''GOCARDLESS_ACCESS_TOKEN environment variable is not set''
           (block_text (hd (content missing_token_result)))"
    unfolding missing_token_text by (rule sublist_appendI)
  ultimately show ?thesis by (simp add: eq)
qed

theorem callTool_missing_token_witness:
  "accessToken (GOCARDLESS_CONFIG (Some ''live'') None) = []
   \<and> callTool (GOCARDLESS_CONFIG (Some ''live'') None) (answering (ok_response Null))
        ''list_customers'' (Obj [(''limit'', Num 5)]) = (missing_token_result, [])"
proof -
  have h: "accessToken (GOCARDLESS_CONFIG (Some ''live'') None) = []"
    by (simp add: GOCARDLESS_CONFIG_def env_or_def)
  show ?thesis using h callTool_missing_token [OF h] by simp
qed

subsection \<open>The prefix of error texts\<close>

text \<open>
  Claim C10. The result for a missing access token is not error-flagged, yet its text
  begins with \<open>Error: \<close>, the prefix that every result of the \<^verbatim>\<open>catch\<close> block (which is
  error-flagged) begins with: the prefix and the flag do not coincide.
\<close>

theorem missing_token_prefix_without_flag:
  "prefix ''Error: '' (block_text (hd (content (fst (callTool (cfg\<lparr>accessToken := []\<rparr>) fetch n args)))))
   \<and> isError (fst (callTool (cfg\<lparr>accessToken := []\<rparr>) fetch n args)) = None
   \<and> \<not> error_flagged (fst (callTool (cfg\<lparr>accessToken := []\<rparr>) fetch n args))
   \<and> prefix ''Error: '' (block_text (hd (content (catch_result e))))
   \<and> error_flagged (catch_result e)"
proof -
  have "callTool (cfg\<lparr>accessToken := []\<rparr>) fetch n args = (missing_token_result, [])"
    by (simp add: callTool_no_token)
  moreover have "prefix ''Error: '' (block_text (hd (content missing_token_result)))"
    unfolding missing_token_text by (rule prefixI) simp
  moreover have "isError missing_token_result = None"
    by (simp add: missing_token_result_def)
  moreover have "prefix ''Error: '' (block_text (hd (content (catch_result e))))"
    unfolding catch_result_text by (rule prefixI) simp
  moreover have "error_flagged (catch_result e)"
    by (simp add: error_flagged_def catch_result_def)
  ultimately show ?thesis by (simp add: error_flagged_def)
qed

subsection \<open>The registry\<close>

text \<open>
  Claim C7. \<open>listTools\<close> is a constant: it returns the eleven tool definitions in the
  order of the registry; each of the eleven names occurs exactly once, and the names
  are pairwise distinct.
\<close>

theorem listTools_names_distinct:
  "map name listTools =
     [''list_customers'', ''create_customer'', ''get_customer'',
      ''list_customer_bank_accounts'', ''create_redirect_flow'', ''list_payments'',
      ''create_billing_request'', ''create_billing_request_flow'',
      ''get_billing_request'', ''list_billing_requests'', ''fulfil_billing_request'']
   \<and> length listTools = 11
   \<and> distinct (map name listTools)
   \<and> map (count_list (map name listTools)) (map name listTools) = replicate 11 1"
proof -
  have names: "map name listTools =
     [''list_customers'', ''create_customer'', ''get_customer'',
      ''list_customer_bank_accounts'', ''create_redirect_flow'', ''list_payments'',
      ''create_billing_request'', ''create_billing_request_flow'',
      ''get_billing_request'', ''list_billing_requests'', ''fulfil_billing_request'']"
    by (simp add: listTools_def tool_names)
  have len: "length listTools = 11"
    by (simp add: listTools_def tools_def)
  have dist: "distinct (map name listTools)"
    unfolding names by simp
  have cnt: "map (count_list (map name listTools)) (map name listTools) = replicate 11 1"
    unfolding names by (simp add: eval_nat_numeral)
  from names len dist cnt show ?thesis by blast
qed

subsection \<open>Unknown tools\<close>

lemma dispatch_unknown:
  assumes "n \<notin> set (map name tools)"
  shows "dispatch cfg fetch n args = (Inl (Error (''Unknown tool: '' @ n)), [])"
proof -
  from assms have
    "n \<noteq> ''list_customers''" "n \<noteq> ''create_customer''" "n \<noteq> ''get_customer''"
    "n \<noteq> ''list_customer_bank_accounts''" "n \<noteq> ''create_redirect_flow''"
    "n \<noteq> ''list_payments''" "n \<noteq> ''create_billing_request''"
    "n \<noteq> ''create_billing_request_flow''" "n \<noteq> ''get_billing_request''"
    "n \<noteq> ''list_billing_requests''" "n \<noteq> ''fulfil_billing_request''"
    unfolding tool_names by auto
  then show ?thesis by (simp add: dispatch_def)
qed

text \<open>
  Claim C6. With a configured access token, a call of a tool whose name is none of the
  eleven names of the registry returns an error-flagged result whose text contains the
  name, and no request is issued.
\<close>

theorem callTool_unknown_tool:
  assumes "accessToken cfg \<noteq> []" and "n \<notin> set (map name tools)"
  shows "callTool cfg fetch n args = (catch_result (Error (''Unknown tool: '' @ n)), [])
    \<and> error_flagged (fst (callTool cfg fetch n args))
    \<and> block_text (hd (content (fst (callTool cfg fetch n args)))) = ''Error: Unknown tool: '' @ n
    \<and> sublist n (block_text (hd (content (fst (callTool cfg fetch n args)))))
    \<and> snd (callTool cfg fetch n args) = []"
proof -
  have eq: "callTool cfg fetch n args = (catch_result (Error (''Unknown tool: '' @ n)), [])"
    using assms by (simp add: callTool_def dispatch_unknown)
  have text_eq: "block_text (hd (content (catch_result (Error (''Unknown tool: '' @ n)))))
      = ''Error: Unknown tool: '' @ n"
    by (simp add: catch_result_def error_message_def)
  have "sublist n (''Error: Unknown tool: '' @ n)"
    by (rule sublist_append_leftI)
  moreover have "error_flagged (catch_result (Error (''Unknown tool: '' @ n)))"
    by (simp add: error_flagged_def catch_result_def)
  ultimately show ?thesis by (simp add: eq text_eq del: append.simps)
qed

theorem callTool_unknown_tool_witness:
  "accessToken test_config \<noteq> [] \<and> ''delete_customer'' \<notin> set (map name tools)
   \<and> callTool test_config (answering (ok_response Null)) ''delete_customer'' (Obj [])
       = (\<lparr> content = [\<lparr> block_type = ''text'', block_text = ''Error: Unknown tool: delete_customer'' \<rparr>],
            isError = Some True \<rparr>, [])"
proof -
  have h1: "accessToken test_config \<noteq> []"
    by (simp add: test_config_def GOCARDLESS_CONFIG_def env_or_def)
  have h2: "''delete_customer'' \<notin> set (map name tools)"
    unfolding tool_names by simp
  show ?thesis
    using h1 h2 callTool_unknown_tool [OF h1 h2, of "answering (ok_response Null)" "Obj []"]
    by (simp add: catch_result_def error_message_def)
qed

subsection \<open>One block of text\<close>

lemma one_text_block_text_result: "one_text_block (text_result t)"
  by (simp add: one_text_block_def text_result_def)

lemma one_text_block_catch_result: "one_text_block (catch_result e)"
  by (simp add: one_text_block_def catch_result_def)

lemma one_text_block_missing_token: "one_text_block missing_token_result"
  by (simp add: one_text_block_def missing_token_result_def)

lemma rendered_block: "rendered parts = Inr r \<Longrightarrow> one_text_block r"
  by (auto simp: rendered_def andThen_Inr one_text_block_text_result)

lemma list_customers_result_block: "list_customers_result data = Inr r \<Longrightarrow> one_text_block r"
  unfolding list_customers_result_def by (rule rendered_block)

lemma create_customer_result_block: "create_customer_result data = Inr r \<Longrightarrow> one_text_block r"
  unfolding create_customer_result_def by (auto simp: andThen_Inr dest: rendered_block)

lemma get_customer_result_block: "get_customer_result data = Inr r \<Longrightarrow> one_text_block r"
  unfolding get_customer_result_def by (auto simp: andThen_Inr dest: rendered_block)

lemma list_customer_bank_accounts_result_block:
  "list_customer_bank_accounts_result data = Inr r \<Longrightarrow> one_text_block r"
  unfolding list_customer_bank_accounts_result_def
  by (auto simp: andThen_Inr one_text_block_text_result dest: rendered_block split: if_splits)

lemma create_redirect_flow_result_block:
  "create_redirect_flow_result data = Inr r \<Longrightarrow> one_text_block r"
  unfolding create_redirect_flow_result_def by (auto simp: andThen_Inr dest: rendered_block)

lemma list_payments_result_block: "list_payments_result data = Inr r \<Longrightarrow> one_text_block r"
  unfolding list_payments_result_def
  by (auto simp: andThen_Inr one_text_block_text_result dest: rendered_block split: if_splits)

lemma create_billing_request_result_block:
  "create_billing_request_result args data = Inr r \<Longrightarrow> one_text_block r"
  unfolding create_billing_request_result_def by (auto simp: andThen_Inr dest: rendered_block)

lemma create_billing_request_flow_result_block:
  "create_billing_request_flow_result data = Inr r \<Longrightarrow> one_text_block r"
  unfolding create_billing_request_flow_result_def
  by (auto simp: andThen_Inr dest: rendered_block)

lemma get_billing_request_result_block:
  "get_billing_request_result data = Inr r \<Longrightarrow> one_text_block r"
  unfolding get_billing_request_result_def by (auto simp: andThen_Inr dest: rendered_block)

lemma list_billing_requests_result_block:
  "list_billing_requests_result data = Inr r \<Longrightarrow> one_text_block r"
  unfolding list_billing_requests_result_def
  by (auto simp: andThen_Inr one_text_block_text_result dest: rendered_block split: if_splits)

lemma fulfil_billing_request_result_block:
  "fulfil_billing_request_result data = Inr r \<Longrightarrow> one_text_block r"
  unfolding fulfil_billing_request_result_def by (auto simp: andThen_Inr dest: rendered_block)

lemma invoke_Inr:
  assumes "invoke cfg fetch request render = (Inr r, calls)"
  obtains data where "render data = Inr r"
  using assms
  by (auto simp: invoke_def split: sum.splits prod.splits)

lemmas result_blocks =
  list_customers_result_block create_customer_result_block get_customer_result_block
  list_customer_bank_accounts_result_block create_redirect_flow_result_block
  list_payments_result_block create_billing_request_result_block
  create_billing_request_flow_result_block get_billing_request_result_block
  list_billing_requests_result_block fulfil_billing_request_result_block

lemma dispatch_block:
  assumes "dispatch cfg fetch n args = (Inr r, calls)"
  shows "one_text_block r"
  using assms unfolding dispatch_def
  by (auto split: if_splits elim!: invoke_Inr dest: result_blocks)

text \<open>
  Claim C9. Whatever the tool name, the arguments and the behaviour of the network (an
  answer with any status and body, or a failure), the result of a call has exactly one
  content block, and the type of that block is \<open>text\<close>.
\<close>

theorem callTool_one_text_block:
  "one_text_block (fst (callTool cfg fetch n args))
   \<and> length (content (fst (callTool cfg fetch n args))) = 1
   \<and> block_type (hd (content (fst (callTool cfg fetch n args)))) = ''text''"
proof -
  have "one_text_block (fst (callTool cfg fetch n args))"
  proof (cases "accessToken cfg = []")
    case True
    then show ?thesis
      by (simp add: callTool_def one_text_block_missing_token)
  next
    case False
    obtain res calls where d: "dispatch cfg fetch n args = (res, calls)"
      by (cases "dispatch cfg fetch n args")
    show ?thesis
    proof (cases res)
      case (Inl e)
      with False d show ?thesis
        by (simp add: callTool_def one_text_block_catch_result)
    next
      case (Inr r)
      with d have "one_text_block r" by (auto dest: dispatch_block)
      with False d Inr show ?thesis by (simp add: callTool_def)
    qed
  qed
  then show ?thesis by (simp add: one_text_block_def)
qed

subsection \<open>Listings with no items\<close>

lemma list_payments_result_empty:
  "get_prop data ''payments'' = Inr (Arr []) \<Longrightarrow>
   list_payments_result data = Inr (text_result ''No payments found matching the criteria.'')"
  by (simp add: list_payments_result_def andThen_def)

lemma list_billing_requests_result_empty:
  "get_prop data ''billing_requests'' = Inr (Arr []) \<Longrightarrow>
   list_billing_requests_result data
     = Inr (text_result ''No billing requests found matching the criteria.'')"
  by (simp add: list_billing_requests_result_def andThen_def)

lemma list_customers_result_empty:
  "get_prop data ''customers'' = Inr (Arr []) \<Longrightarrow>
   list_customers_result data = Inr (text_result (''Found 0 customers:'' @ NL @ NL))"
  by (simp add: list_customers_result_def rendered_def template_def andThen_def lit_def
      field2_def field_def joined_lines_def call_map_def number_to_string_def digit_char_def
      decimal.simps)

text \<open>
  Claim C2 says that each of the three list handlers answers an empty listing with its
  fixed "No ... found" sentence. \<open>list_payments\<close> and \<open>list_billing_requests\<close> do (the
  two lemmas above); \<open>list_customers\<close> has no such test and renders the enumeration of
  zero items. The handler evaluated at a reply with no customers:
\<close>

theorem list_customers_zero_items:
  "get_prop no_customers ''customers'' = Inr (Arr [])
   \<and> callTool test_config (answering (ok_response no_customers)) ''list_customers'' (Obj [])
     = (\<lparr> content = [\<lparr> block_type = ''text'', block_text = ''Found 0 customers:'' @ NL @ NL \<rparr>],
          isError = None \<rparr>,
        [\<lparr> url = ''https://api-sandbox.gocardless.com/customers?'',
           init = \<lparr> http_method = None, body = None,
                    headers = [(''Authorization'', ''Bearer live_token''),
                               (''GoCardless-Version'', ''2015-07-06''),
                               (''Content-Type'', ''application/json'')] \<rparr> \<rparr>])"
  by code_simp

subsection \<open>The limit of a listing\<close>

text \<open>
  Claim C3, as stated, fails: called without \<open>limit\<close>, \<open>list_customers\<close> requests
  \<^verbatim>\<open>/customers?\<close> with an empty query, not \<^verbatim>\<open>limit=50\<close>.
\<close>

theorem list_customers_sends_no_limit:
  "\<not> has_field (Obj []) ''limit''
   \<and> map url (snd (callTool test_config (answering (ok_response no_customers)) ''list_customers'' (Obj [])))
       = [''https://api-sandbox.gocardless.com/customers?'']
   \<and> \<not> sublist ''limit'' ''https://api-sandbox.gocardless.com/customers?''"
  by code_simp

lemma keys_params_set: "fst ` set (params_set q k v) \<subseteq> insert k (fst ` set q)"
  by (induction q k v rule: params_set.induct) auto

lemma keys_set_if_string:
  "k' \<in> fst ` set (set_if_string q k v) \<Longrightarrow> k' = k \<or> k' \<in> fst ` set q"
  using keys_params_set [of q k "str_of v"] by (auto simp: set_if_string_def split: if_splits)

lemma set_limit_absent: "\<not> has_field args ''limit'' \<Longrightarrow> set_limit q args = Inr q"
  by (simp add: set_limit_def opt_prop_absent)

lemma list_customers_url:
  assumes "accessToken cfg \<noteq> []" and "list_customers_params args = Inr q"
  shows "map url (snd (callTool cfg fetch ''list_customers'' args))
         = [getApiBaseUrl cfg @ ''/customers?'' @ params_toString q]"
  using assms
  by (simp add: callTool_calls dispatch_def list_customers_request_def andThen_def invoke_url)

lemma list_payments_url:
  assumes "accessToken cfg \<noteq> []" and "list_payments_params args = Inr q"
  shows "map url (snd (callTool cfg fetch ''list_payments'' args))
         = [getApiBaseUrl cfg @ ''/payments?'' @ params_toString q]"
  using assms
  by (simp add: callTool_calls dispatch_def list_payments_request_def andThen_def invoke_url)

lemma list_billing_requests_url:
  assumes "accessToken cfg \<noteq> []" and "list_billing_requests_params args = Inr q"
  shows "map url (snd (callTool cfg fetch ''list_billing_requests'' args))
         = [getApiBaseUrl cfg @ ''/billing_requests?'' @ params_toString q]"
  using assms
  by (simp add: callTool_calls dispatch_def list_billing_requests_request_def andThen_def invoke_url)

lemma list_customers_params_no_limit:
  assumes "\<not> has_field args ''limit''"
  shows "\<exists>q. list_customers_params args = Inr q \<and> ''limit'' \<notin> fst ` set q"
proof -
  let ?q = "set_if_string [] ''after'' (opt_prop args ''after'')"
  have "list_customers_params args = Inr ?q"
    using assms by (simp add: list_customers_params_def set_limit_absent andThen_def)
  moreover have "''limit'' \<notin> fst ` set ?q"
    by (auto dest!: keys_set_if_string)
  ultimately show ?thesis by blast
qed

lemma list_payments_params_no_limit:
  assumes "\<not> has_field args ''limit''"
  shows "\<exists>q. list_payments_params args = Inr q \<and> ''limit'' \<notin> fst ` set q"
proof -
  let ?q1 = "set_if_string [] ''customer'' (opt_prop args ''customer'')"
  let ?q = "set_if_string ?q1 ''status'' (opt_prop args ''status'')"
  have "list_payments_params args = Inr ?q"
    using assms by (simp add: list_payments_params_def set_limit_absent andThen_def)
  moreover have "''limit'' \<notin> fst ` set ?q"
    by (auto dest!: keys_set_if_string)
  ultimately show ?thesis by blast
qed

lemma list_billing_requests_params_no_limit:
  assumes "\<not> has_field args ''limit''"
  shows "\<exists>q. list_billing_requests_params args = Inr q \<and> ''limit'' \<notin> fst ` set q"
proof -
  let ?q1 = "set_if_string [] ''status'' (opt_prop args ''status'')"
  let ?q = "set_if_string ?q1 ''customer'' (opt_prop args ''customer'')"
  have "list_billing_requests_params args = Inr ?q"
    using assms by (simp add: list_billing_requests_params_def set_limit_absent andThen_def)
  moreover have "''limit'' \<notin> fst ` set ?q"
    by (auto dest!: keys_set_if_string)
  ultimately show ?thesis by blast
qed

text \<open>
  Claim C3, amended. With a configured access token, when the caller omits \<open>limit\<close>,
  each of the three list handlers issues its request with a query that has no
  parameter named \<open>limit\<close>: the handler applies no default and leaves the limit unset.
\<close>

theorem omitted_limit_is_not_sent:
  assumes "accessToken cfg \<noteq> []" and "\<not> has_field args ''limit''"
  shows "(\<exists>q. list_customers_params args = Inr q \<and> ''limit'' \<notin> fst ` set q
            \<and> map url (snd (callTool cfg fetch ''list_customers'' args))
                = [getApiBaseUrl cfg @ ''/customers?'' @ params_toString q])
       \<and> (\<exists>q. list_payments_params args = Inr q \<and> ''limit'' \<notin> fst ` set q
            \<and> map url (snd (callTool cfg fetch ''list_payments'' args))
                = [getApiBaseUrl cfg @ ''/payments?'' @ params_toString q])
       \<and> (\<exists>q. list_billing_requests_params args = Inr q \<and> ''limit'' \<notin> fst ` set q
            \<and> map url (snd (callTool cfg fetch ''list_billing_requests'' args))
                = [getApiBaseUrl cfg @ ''/billing_requests?'' @ params_toString q])"
proof (intro conjI)
  from list_customers_params_no_limit [OF assms(2)]
  obtain q where "list_customers_params args = Inr q" "''limit'' \<notin> fst ` set q" by blast
  then show "\<exists>q. list_customers_params args = Inr q \<and> ''limit'' \<notin> fst ` set q
            \<and> map url (snd (callTool cfg fetch ''list_customers'' args))
                = [getApiBaseUrl cfg @ ''/customers?'' @ params_toString q]"
    using list_customers_url [OF assms(1)] by blast
next
  from list_payments_params_no_limit [OF assms(2)]
  obtain q where "list_payments_params args = Inr q" "''limit'' \<notin> fst ` set q" by blast
  then show "\<exists>q. list_payments_params args = Inr q \<and> ''limit'' \<notin> fst ` set q
            \<and> map url (snd (callTool cfg fetch ''list_payments'' args))
                = [getApiBaseUrl cfg @ ''/payments?'' @ params_toString q]"
    using list_payments_url [OF assms(1)] by blast
next
  from list_billing_requests_params_no_limit [OF assms(2)]
  obtain q where "list_billing_requests_params args = Inr q" "''limit'' \<notin> fst ` set q" by blast
  then show "\<exists>q. list_billing_requests_params args = Inr q \<and> ''limit'' \<notin> fst ` set q
            \<and> map url (snd (callTool cfg fetch ''list_billing_requests'' args))
                = [getApiBaseUrl cfg @ ''/billing_requests?'' @ params_toString q]"
    using list_billing_requests_url [OF assms(1)] by blast
qed

theorem omitted_limit_is_not_sent_witness:
  "accessToken test_config \<noteq> [] \<and> \<not> has_field cursor_args ''limit''
   \<and> (\<exists>q. list_customers_params cursor_args = Inr q \<and> ''limit'' \<notin> fst ` set q
         \<and> map url (snd (callTool test_config (answering (ok_response no_customers))
                            ''list_customers'' cursor_args))
             = [getApiBaseUrl test_config @ ''/customers?'' @ params_toString q])
   \<and> map url (snd (callTool test_config (answering (ok_response no_customers))
                      ''list_customers'' cursor_args))
       = [''https://api-sandbox.gocardless.com/customers?after=CU123'']"
proof -
  have h: "\<not> has_field cursor_args ''limit''"
    by (simp add: cursor_args_def)
  have u: "map url (snd (callTool test_config (answering (ok_response no_customers))
                      ''list_customers'' cursor_args))
       = [''https://api-sandbox.gocardless.com/customers?after=CU123'']"
    by code_simp
  from omitted_limit_is_not_sent [OF test_config_token h, of "answering (ok_response no_customers)"]
  have "\<exists>q. list_customers_params cursor_args = Inr q \<and> ''limit'' \<notin> fst ` set q
         \<and> map url (snd (callTool test_config (answering (ok_response no_customers))
                            ''list_customers'' cursor_args))
             = [getApiBaseUrl test_config @ ''/customers?'' @ params_toString q]"
    by (rule conjunct1)
  with test_config_token h u show ?thesis by blast
qed

subsection \<open>Monetary amounts\<close>



































subsection \<open>Required fields\<close>

lemma required_fields_id_tools:
  "required_fields ''get_customer'' = [''customer_id'']"
  "required_fields ''list_customer_bank_accounts'' = [''customer_id'']"
  "required_fields ''get_billing_request'' = [''billing_request_id'']"
  "required_fields ''fulfil_billing_request'' = [''billing_request_id'']"
  by (simp_all add: required_fields_def tools_def list_customers_tool_def create_customer_tool_def
      get_customer_tool_def list_customer_bank_accounts_tool_def
      create_redirect_flow_tool_def list_payments_tool_def create_billing_request_tool_def
      create_billing_request_flow_tool_def get_billing_request_tool_def
      list_billing_requests_tool_def fulfil_billing_request_tool_def object_schema_def)

lemma required_fields_create_customer:
  "required_fields ''create_customer'' = [''email'', ''given_name'', ''family_name'']"
  by (simp add: required_fields_def tools_def list_customers_tool_def create_customer_tool_def
      object_schema_def)

lemma id_tool_missing_field:
  assumes "accessToken cfg \<noteq> []" and "n \<in> set id_tools"
    and "k \<in> set (required_fields n)" and "\<not> has_field args k"
  shows "callTool cfg fetch n args = (catch_result (Error (k @ '' is required'')), [])"
proof -
  from assms(2) have "n = ''get_customer'' \<or> n = ''list_customer_bank_accounts''
    \<or> n = ''get_billing_request'' \<or> n = ''fulfil_billing_request''"
    by (simp add: id_tools_def)
  then consider "n = ''get_customer''" | "n = ''list_customer_bank_accounts''"
    | "n = ''get_billing_request''" | "n = ''fulfil_billing_request''"
    by (elim disjE) (rule that, assumption)+
  then show ?thesis
  proof cases
    case 1
    with assms(3) have k: "k = ''customer_id''" by (simp add: required_fields_id_tools)
    with assms(4) have "opt_prop args ''customer_id'' = Undefined" by (simp add: opt_prop_absent)
    then have "dispatch cfg fetch n args = (Inl (Error ''customer_id is required''), [])"
      by (simp add: 1 dispatch_def get_customer_request_def invoke_throw)
    with assms(1) show ?thesis by (simp add: k callTool_throw)
  next
    case 2
    with assms(3) have k: "k = ''customer_id''" by (simp add: required_fields_id_tools)
    with assms(4) have "opt_prop args ''customer_id'' = Undefined" by (simp add: opt_prop_absent)
    then have "dispatch cfg fetch n args = (Inl (Error ''customer_id is required''), [])"
      by (simp add: 2 dispatch_def list_customer_bank_accounts_request_def invoke_throw)
    with assms(1) show ?thesis by (simp add: k callTool_throw)
  next
    case 3
    with assms(3) have k: "k = ''billing_request_id''" by (simp add: required_fields_id_tools)
    with assms(4) have "opt_prop args ''billing_request_id'' = Undefined"
      by (simp add: opt_prop_absent)
    then have "dispatch cfg fetch n args = (Inl (Error ''billing_request_id is required''), [])"
      by (simp add: 3 dispatch_def get_billing_request_request_def invoke_throw)
    with assms(1) show ?thesis by (simp add: k callTool_throw)
  next
    case 4
    with assms(3) have k: "k = ''billing_request_id''" by (simp add: required_fields_id_tools)
    with assms(4) have "opt_prop args ''billing_request_id'' = Undefined"
      by (simp add: opt_prop_absent)
    then have "dispatch cfg fetch n args = (Inl (Error ''billing_request_id is required''), [])"
      by (simp add: 4 dispatch_def fulfil_billing_request_request_def invoke_throw)
    with assms(1) show ?thesis by (simp add: k callTool_throw)
  qed
qed

lemma create_tool_without_arguments:
  assumes "accessToken cfg \<noteq> []" and "m \<in> set create_tools"
  shows "callTool cfg fetch m Undefined
         = (catch_result (Error (''Arguments required for '' @ m)), [])"
proof -
  from assms(2) have "m = ''create_customer'' \<or> m = ''create_redirect_flow''
    \<or> m = ''create_billing_request'' \<or> m = ''create_billing_request_flow''"
    by (simp add: create_tools_def)
  then consider "m = ''create_customer''" | "m = ''create_redirect_flow''"
    | "m = ''create_billing_request''" | "m = ''create_billing_request_flow''"
    by (elim disjE) (rule that, assumption)+
  then have "dispatch cfg fetch m Undefined = (Inl (Error (''Arguments required for '' @ m)), [])"
    by cases
      (simp_all add: dispatch_def create_customer_request_def create_redirect_flow_request_def
        create_billing_request_request_def create_billing_request_flow_request_def invoke_throw)
  with assms(1) show ?thesis by (simp add: callTool_throw)
qed

text \<open>
  Claim C1, as stated, fails. With a token, \<open>create_customer\<close> called without the
  required \<open>email\<close> issues its request, and the result is not error-flagged when the API
  accepts it; the other three tools that create a resource issue their request even
  when every required field is missing. Without a token, \<open>get_customer\<close> called without
  \<open>customer_id\<close> returns the missing-token result, which is not error-flagged either.
\<close>

theorem required_field_not_enforced:
  "''email'' \<in> set (required_fields ''create_customer'')
   \<and> \<not> has_field args_without_email ''email''
   \<and> accessToken test_config \<noteq> []
   \<and> \<not> error_flagged (fst (callTool test_config (answering (ok_response created_customer))
                               ''create_customer'' args_without_email))
   \<and> map url (snd (callTool test_config (answering (ok_response created_customer))
                     ''create_customer'' args_without_email))
       = [''https://api-sandbox.gocardless.com/customers'']
   \<and> ''customer_email'' \<in> set (required_fields ''create_billing_request'')
   \<and> ''description'' \<in> set (required_fields ''create_redirect_flow'')
   \<and> ''billing_request_id'' \<in> set (required_fields ''create_billing_request_flow'')
   \<and> map url (snd (callTool test_config (answering (ok_response created_customer))
                     ''create_billing_request'' (Obj [])))
       = [''https://api-sandbox.gocardless.com/billing_requests'']
   \<and> map url (snd (callTool test_config (answering (ok_response created_customer))
                     ''create_redirect_flow'' (Obj [])))
       = [''https://api-sandbox.gocardless.com/redirect_flows'']
   \<and> map url (snd (callTool test_config (answering (ok_response created_customer))
                     ''create_billing_request_flow'' (Obj [])))
       = [''https://api-sandbox.gocardless.com/billing_request_flows'']
   \<and> ''customer_id'' \<in> set (required_fields ''get_customer'')
   \<and> \<not> has_field (Obj []) ''customer_id''
   \<and> \<not> error_flagged (fst (callTool (GOCARDLESS_CONFIG None None)
                               (answering (ok_response created_customer))
                               ''get_customer'' (Obj [])))"
  by code_simp

text \<open>
  Claim C1, amended. With a configured access token: for \<open>get_customer\<close>,
  \<open>list_customer_bank_accounts\<close>, \<open>get_billing_request\<close> and \<open>fulfil_billing_request\<close>, a
  call whose arguments omit a field of the tool's \<open>required\<close> list returns an
  error-flagged result and issues no request; for the four tools that create a
  resource, the same holds when the call carries no arguments at all.
\<close>

theorem missing_required_field_checked:
  assumes "accessToken cfg \<noteq> []"
  shows "(n \<in> set id_tools \<and> k \<in> set (required_fields n) \<and> \<not> has_field args k \<longrightarrow>
            callTool cfg fetch n args = (catch_result (Error (k @ '' is required'')), [])
            \<and> error_flagged (fst (callTool cfg fetch n args))
            \<and> snd (callTool cfg fetch n args) = [])
       \<and> (m \<in> set create_tools \<longrightarrow>
            callTool cfg fetch m Undefined
              = (catch_result (Error (''Arguments required for '' @ m)), [])
            \<and> error_flagged (fst (callTool cfg fetch m Undefined))
            \<and> snd (callTool cfg fetch m Undefined) = [])"
  using id_tool_missing_field [OF assms, of n k args fetch]
    create_tool_without_arguments [OF assms, of m fetch]
  by (simp add: error_flagged_catch_result)

theorem missing_required_field_checked_witness:
  "accessToken test_config \<noteq> []
   \<and> ''get_customer'' \<in> set id_tools
   \<and> ''customer_id'' \<in> set (required_fields ''get_customer'')
   \<and> \<not> has_field (Obj []) ''customer_id''
   \<and> callTool test_config (answering (ok_response created_customer)) ''get_customer'' (Obj [])
       = (\<lparr> content = [\<lparr> block_type = ''text'', block_text = ''Error: customer_id is required'' \<rparr>],
            isError = Some True \<rparr>, [])
   \<and> ''create_customer'' \<in> set create_tools
   \<and> callTool test_config (answering (ok_response created_customer)) ''create_customer'' Undefined
       = (\<lparr> content = [\<lparr> block_type = ''text'',
                          block_text = ''Error: Arguments required for create_customer'' \<rparr>],
            isError = Some True \<rparr>, [])"
proof -
  have h1: "''get_customer'' \<in> set id_tools" by (simp add: id_tools_def)
  have h2: "''customer_id'' \<in> set (required_fields ''get_customer'')"
    by (simp add: required_fields_id_tools)
  have h3: "\<not> has_field (Obj []) ''customer_id''" by simp
  have h4: "''create_customer'' \<in> set create_tools" by (simp add: create_tools_def)
  show ?thesis
    using missing_required_field_checked [OF test_config_token,
        of "''get_customer''" "''customer_id''" "Obj []" "answering (ok_response created_customer)"
           "''create_customer''"]
      test_config_token h1 h2 h3 h4
    by (simp add: catch_result_def error_message_def)
qed

end
